theory Spec2Isabelle
  imports Main "HOL-Library.Word" "HOL-Library.Sublist"
begin

section \<open>JavaScript values as the script uses them\<close>

text \<open>
  The diagnostic script \<^verbatim>\<open>debug.js\<close> is a sequence of queries of the machine it runs
  on (subprocesses, DNS, HTTPS, the file system, the terminal), each followed by a
  comparison and a print. The embedding keeps the script's own functions
  (\<^verbatim>\<open>exec\<close>, \<^verbatim>\<open>section\<close>, \<^verbatim>\<open>error\<close>, \<^verbatim>\<open>warn\<close>, \<^verbatim>\<open>ping\<close>, \<^verbatim>\<open>hasInternetAccess\<close>,
  \<^verbatim>\<open>isDockerRunning\<close> and the three section bodies) and takes everything the script
  observes as a record of the machine.

  A JavaScript string is a sequence of UTF-16 code units; \<^verbatim>\<open>length\<close> counts code units.
\<close>

type_synonym jschar = "16 word"
type_synonym jsstring = "jschar list"

definition js :: "string \<Rightarrow> jsstring" where
  \<comment> \<open>a string literal of the source (ASCII)\<close>
  "js s = map of_char s"

definition arrow :: jschar where
  \<comment> \<open>U+2192, the arrow that starts every error and warning message\<close>
  "arrow = 0x2192"

text \<open>
  \<^verbatim>\<open>String.prototype.trim\<close> removes WhiteSpace and LineTerminator code points from both
  ends: TAB, LF, VT, FF, CR, SP, NBSP, U+1680, U+2000..U+200A, U+2028, U+2029, U+202F,
  U+205F, U+3000 and U+FEFF.
\<close>

definition isWhiteSpace :: "jschar \<Rightarrow> bool" where
  "isWhiteSpace c =
     (c = 0x9 \<or> c = 0xA \<or> c = 0xB \<or> c = 0xC \<or> c = 0xD \<or> c = 0x20 \<or> c = 0xA0 \<or>
      c = 0x1680 \<or> (0x2000 \<le> c \<and> c \<le> 0x200A) \<or> c = 0x2028 \<or> c = 0x2029 \<or>
      c = 0x202F \<or> c = 0x205F \<or> c = 0x3000 \<or> c = 0xFEFF)"

definition trimStart :: "jsstring \<Rightarrow> jsstring" where
  "trimStart s = dropWhile isWhiteSpace s"

definition trimEnd :: "jsstring \<Rightarrow> jsstring" where
  "trimEnd s = rev (dropWhile isWhiteSpace (rev s))"

definition trim :: "jsstring \<Rightarrow> jsstring" where
  "trim s = trimEnd (trimStart s)"

definition slice_from :: "nat \<Rightarrow> jsstring \<Rightarrow> jsstring" where
  \<comment> \<open>\<^verbatim>\<open>s.slice(n)\<close> for a non-negative literal \<^verbatim>\<open>n\<close>\<close>
  "slice_from n s = drop n s"


text \<open>
  The numbers the script computes with are integers (a column count, a string length, a
  commit count, a day count) or \<^verbatim>\<open>NaN\<close> (from \<^verbatim>\<open>undefined\<close> in arithmetic, or from
  a string that is not a number).
\<close>

datatype jsnum = NaN | Finite int

fun ToNumber :: "nat option \<Rightarrow> jsnum" where
  \<comment> \<open>a numeric property that may be \<^verbatim>\<open>undefined\<close>, used as a number\<close>
  "ToNumber None = NaN"
| "ToNumber (Some n) = Finite (int n)"

fun js_minus :: "jsnum \<Rightarrow> jsnum \<Rightarrow> jsnum" where
  "js_minus (Finite a) (Finite b) = Finite (a - b)"
| "js_minus _ _ = NaN"

fun js_gt :: "jsnum \<Rightarrow> jsnum \<Rightarrow> bool" where
  \<comment> \<open>\<^verbatim>\<open>a > b\<close>: false when either side is \<^verbatim>\<open>NaN\<close>\<close>
  "js_gt (Finite a) (Finite b) = (a > b)"
| "js_gt _ _ = False"

datatype js_error =
    RangeError
  | CommandFailed nat
  | Rejected jsstring

text \<open>
  \<^verbatim>\<open>RangeError\<close> is what \<^verbatim>\<open>String.prototype.repeat\<close> throws, \<^verbatim>\<open>CommandFailed n\<close> what
  \<^verbatim>\<open>execSync\<close> throws when the subprocess exits with status \<^verbatim>\<open>n > 0\<close>, and
  \<^verbatim>\<open>Rejected code\<close> any other failure of a platform or library call, with its error
  code (\<^verbatim>\<open>ENOENT\<close>, \<^verbatim>\<open>ETIMEDOUT\<close>, ...).

  \<^verbatim>\<open>chalk\<close> (third party) colours a string without changing the characters a terminal
  shows. A string that may carry colours is a list of styled pieces; \<^verbatim>\<open>+\<close> on such
  strings is \<open>@\<close>, and \<open>visible\<close> is what the terminal shows.
\<close>

datatype style = Plain | Dim | Green | Red | Yellow

type_synonym styled = "(style \<times> jsstring) list"

definition chalk :: "style \<Rightarrow> jsstring \<Rightarrow> styled" where
  "chalk st s = [(st, s)]"

definition plain :: "jsstring \<Rightarrow> styled" where
  "plain s = [(Plain, s)]"

definition visible :: "styled \<Rightarrow> jsstring" where
  "visible t = concat (map snd t)"

datatype jsvalue = Undefined | Bool bool | Num jsnum | Str styled

text \<open>
  \<^verbatim>\<open>s.repeat(count)\<close> takes \<^verbatim>\<open>NaN\<close> as 0 and throws \<^verbatim>\<open>RangeError\<close> on a negative count.
  (It also throws when the result would pass the engine's longest string, some 2^29
  code units; a terminal's column count is a 16-bit number, far below that.)
\<close>

fun js_repeat :: "jsstring \<Rightarrow> jsnum \<Rightarrow> js_error + jsstring" where
  "js_repeat s NaN = Inr []"
| "js_repeat s (Finite n) =
     (if n < 0 then Inl RangeError else Inr (concat (replicate (nat n) s)))"

section \<open>The machine\<close>

text \<open>
  Everything the script observes and does not define. \<open>run_process\<close> is the outcome of
  running a command line in a subshell: it exits with a status and has written its
  standard output (decoded), or it was never started or was killed (\<open>Aborted\<close>, with
  the error code). \<open>axios_get\<close> and \<open>dns_resolve\<close> say how the HTTPS GET (certificate
  checks off) and the DNS query end. \<open>columns\<close> is \<^verbatim>\<open>process.stdout.columns\<close>, undefined
  when the output is not a terminal. \<open>now\<close> and the birth time of a path are in
  milliseconds since the epoch; \<open>utc_offset\<close> is the local zone's offset from UTC in
  minutes at an instant.

  The last four fields are library and engine functions the script calls and this
  repository does not contain: \<^verbatim>\<open>semver.satisfies\<close>, moment's \<^verbatim>\<open>fromNow\<close>, and the
  engine's conversions \<^verbatim>\<open>Number(string)\<close> and number-to-string (on the values that occur
  here: \<^verbatim>\<open>wc -l\<close> prints a decimal count).
\<close>

datatype proc_outcome = Exited nat jsstring | Aborted jsstring

record machine =
  run_process :: "jsstring \<Rightarrow> proc_outcome"
  axios_get :: "jsstring \<Rightarrow> js_error option"
  dns_resolve :: "jsstring \<Rightarrow> js_error option"
  stat_birthtime :: "jsstring \<Rightarrow> js_error + int"
  readdir_entries :: "jsstring \<Rightarrow> js_error + jsstring list"
  columns :: "nat option"
  environ :: "jsstring \<Rightarrow> jsstring option"
  platform :: jsstring
  cpus :: nat
  now :: int
  utc_offset :: "int \<Rightarrow> int"
  semver_satisfies :: "jsstring \<Rightarrow> jsstring \<Rightarrow> bool"
  moment_fromNow :: "int \<Rightarrow> jsstring"
  to_Number :: "jsstring \<Rightarrow> jsnum"
  to_String :: "jsnum \<Rightarrow> jsstring"

section \<open>Effects: a trace of events and a result or an exception\<close>

text \<open>
  The script runs one step after another (every asynchronous call is awaited at once),
  so a run is the list of what it printed and which outside calls it made, in order,
  together with the value it returned or the exception it threw. A rejected promise of
  an \<^verbatim>\<open>async\<close> function is the exception.
\<close>

datatype event =
    Log "jsvalue list"
  | Error "jsvalue list"
  | Warn "jsvalue list"
  | Spawn jsstring
  | HttpGet jsstring
  | DnsResolve jsstring
  | Stat jsstring
  | Readdir jsstring

type_synonym 'a io = "event list \<times> (js_error + 'a)"

definition ok :: "'a \<Rightarrow> 'a io" where
  "ok x = ([], Inr x)"

definition emit :: "event \<Rightarrow> unit io" where
  "emit ev = ([ev], Inr ())"

definition andThen :: "'a io \<Rightarrow> ('a \<Rightarrow> 'b io) \<Rightarrow> 'b io" where
  \<comment> \<open>sequencing: an exception of the first part skips the rest\<close>
  "andThen m f =
     (case snd m of
        Inl e \<Rightarrow> (fst m, Inl e)
      | Inr x \<Rightarrow> (fst m @ fst (f x), snd (f x)))"

definition try_catch :: "'a io \<Rightarrow> 'a io \<Rightarrow> 'a io" where
  \<comment> \<open>\<^verbatim>\<open>try { m } catch { h }\<close>: the handler does not look at the exception\<close>
  "try_catch m h =
     (case snd m of
        Inl e \<Rightarrow> (fst m @ fst h, snd h)
      | Inr x \<Rightarrow> m)"

definition lift :: "js_error + 'a \<Rightarrow> 'a io" where
  "lift r = ([], r)"

section \<open>Platform and library calls\<close>

fun exit_value :: "proc_outcome \<Rightarrow> js_error + jsstring" where
  "exit_value (Exited n out) = (if n = 0 then Inr out else Inl (CommandFailed n))"
| "exit_value (Aborted code) = Inl (Rejected code)"

fun succeeded :: "proc_outcome \<Rightarrow> bool" where
  "succeeded (Exited n out) = (n = 0)"
| "succeeded (Aborted code) = False"

definition execSync :: "machine \<Rightarrow> jsstring \<Rightarrow> jsstring io" where
  \<comment> \<open>\<^verbatim>\<open>cp.execSync(command)\<close>, decoded: the standard output when the subprocess exits
      with status 0; throws when it exits non-zero or cannot be run\<close>
  "execSync w command =
     andThen (emit (Spawn command)) (\<lambda>_. lift (exit_value (run_process w command)))"

definition axios_get_call :: "machine \<Rightarrow> jsstring \<Rightarrow> unit io" where
  "axios_get_call w url =
     andThen (emit (HttpGet url)) (\<lambda>_.
       lift (case axios_get w url of None \<Rightarrow> Inr () | Some e \<Rightarrow> Inl e))"

definition dns_resolve_call :: "machine \<Rightarrow> jsstring \<Rightarrow> unit io" where
  "dns_resolve_call w host =
     andThen (emit (DnsResolve host)) (\<lambda>_.
       lift (case dns_resolve w host of None \<Rightarrow> Inr () | Some e \<Rightarrow> Inl e))"

definition stat :: "machine \<Rightarrow> jsstring \<Rightarrow> int io" where
  \<comment> \<open>\<^verbatim>\<open>(await stat(path)).birthtime\<close>, in milliseconds\<close>
  "stat w path = andThen (emit (Stat path)) (\<lambda>_. lift (stat_birthtime w path))"

definition readdir :: "machine \<Rightarrow> jsstring \<Rightarrow> jsstring list io" where
  "readdir w path = andThen (emit (Readdir path)) (\<lambda>_. lift (readdir_entries w path))"

definition env_value :: "machine \<Rightarrow> jsstring \<Rightarrow> jsvalue" where
  \<comment> \<open>\<^verbatim>\<open>process.env.NAME\<close>\<close>
  "env_value w name = (case environ w name of None \<Rightarrow> Undefined | Some v \<Rightarrow> Str (plain v))"

definition absFloor :: "int \<Rightarrow> int \<Rightarrow> int" where
  \<comment> \<open>moment's \<^verbatim>\<open>absFloor(a / b)\<close> for \<open>b > 0\<close>: the quotient rounded toward zero\<close>
  "absFloor a b = (if a < 0 then - ((- a) div b) else a div b)"

definition moment_diff_days :: "machine \<Rightarrow> int \<Rightarrow> int \<Rightarrow> int" where
  \<comment> \<open>moment's \<^verbatim>\<open>this.diff(that, 'days')\<close> on two local-time moments:
      \<^verbatim>\<open>absFloor((this - that - zoneDelta) / 864e5)\<close> with
      \<^verbatim>\<open>zoneDelta = (that.utcOffset() - this.utcOffset()) * 6e4\<close>. Instants are whole
      milliseconds; the library divides in double precision, which rounds to the same
      whole number of days for every pair of instants a \<^verbatim>\<open>Date\<close> of this era holds\<close>
  "moment_diff_days w this that =
     (let zoneDelta = (utc_offset w that - utc_offset w this) * 60000
      in absFloor (this - that - zoneDelta) 86400000)"

section \<open>The script\<close>

definition exec :: "machine \<Rightarrow> jsstring \<Rightarrow> jsstring io" where
  "exec w command = andThen (execSync w command) (\<lambda>out. ok (trim out))"

definition log :: "jsvalue list \<Rightarrow> unit io" where
  "log args = emit (Log args)"

definition label :: "string \<Rightarrow> jsvalue" where
  \<comment> \<open>a string literal as a printed argument\<close>
  "label s = Str (plain (js s))"

definition section' :: "machine \<Rightarrow> jsstring \<Rightarrow> unit io \<Rightarrow> unit io" where
  "section' w name callback =
     (let WIDTH = columns w;
          start = chalk Dim (js ''* '');
          endm = chalk Dim (js '' *'')
      in andThen (lift (js_repeat (js ''='') (ToNumber WIDTH))) (\<lambda>eqs.
         let line = chalk Dim eqs in
         andThen (log [Str line]) (\<lambda>_.
         andThen (lift (js_repeat (js '' '')
                    (js_minus (js_minus (ToNumber WIDTH) (Finite (int (length name)))) (Finite 4))))
           (\<lambda>pad.
         andThen (log [Str (start @ chalk Green name @ plain pad @ endm)]) (\<lambda>_.
         andThen (log [Str line]) (\<lambda>_.
         andThen callback (\<lambda>_.
         log [Str (plain [])])))))))"

definition error :: "jsstring \<Rightarrow> unit io" where
  "error message = emit (Error [Str (chalk Red (arrow # js '' '' @ message))])"

definition warn :: "jsstring \<Rightarrow> unit io" where
  "warn message = emit (Warn [Str (chalk Yellow (arrow # js '' '' @ message))])"

definition ping :: "machine \<Rightarrow> jsstring \<Rightarrow> bool io" where
  "ping w url = try_catch (andThen (axios_get_call w url) (\<lambda>_. ok True)) (ok False)"

definition hasInternetAccess :: "machine \<Rightarrow> bool io" where
  "hasInternetAccess w =
     try_catch (andThen (dns_resolve_call w (js ''www.google.com'')) (\<lambda>_. ok True)) (ok False)"

definition isDockerRunning :: "machine \<Rightarrow> bool io" where
  "isDockerRunning w =
     try_catch (andThen (execSync w (js ''docker version'')) (\<lambda>_. ok True)) (ok False)"

definition system_body :: "machine \<Rightarrow> unit io" where
  "system_body w =
     andThen (ping w (js ''https://metadata.int.thomsonreuters.com'')) (\<lambda>onVPN.
     andThen (log [label ''Username:'', env_value w (js ''USERNAME'')]) (\<lambda>_.
     andThen (log [label ''Distribution:'', Str (plain (platform w))]) (\<lambda>_.
     andThen (log [label ''CPUs:'', Num (Finite (int (cpus w)))]) (\<lambda>_.
     andThen (hasInternetAccess w) (\<lambda>internet.
     andThen (log [label ''Internet:'', Bool internet]) (\<lambda>_.
     andThen (log [label ''VPN:'', Bool onVPN]) (\<lambda>_.
     andThen (isDockerRunning w) (\<lambda>docker.
     log [label ''Docker running:'', Bool docker]))))))))"

definition expected :: jsstring where
  "expected = js ''v12.18.3''"

definition hasNvm :: "machine \<Rightarrow> bool io" where
  \<comment> \<open>\<^verbatim>\<open>exec('echo $NVM_DIR') !== ''\<close>\<close>
  "hasNvm w = andThen (exec w (js ''echo $NVM_DIR'')) (\<lambda>out. ok (out \<noteq> []))"

definition oldInstall :: "machine \<Rightarrow> int \<Rightarrow> bool" where
  \<comment> \<open>\<^verbatim>\<open>moment().diff(lastInstall, 'days') >= 7\<close>\<close>
  "oldInstall w lastInstall = (moment_diff_days w (now w) lastInstall \<ge> 7)"

definition version_check :: "machine \<Rightarrow> jsstring \<Rightarrow> unit io" where
  \<comment> \<open>the \<^verbatim>\<open>if (!semver.satisfies(nodeVersion, expected))\<close> statement\<close>
  "version_check w nodeVersion =
     (if \<not> semver_satisfies w nodeVersion expected then
        andThen (error (js ''Installed Node version ('' @ nodeVersion @
                    js '') does not satisfy expectations ('' @ expected @
                    js ''); please update.'')) (\<lambda>_.
        error (js ''nvm install '' @ slice_from 2 expected))
      else ok ())"

definition nvm_check :: "bool \<Rightarrow> unit io" where
  \<comment> \<open>the \<^verbatim>\<open>if (!hasNvm)\<close> statement\<close>
  "nvm_check has =
     (if \<not> has then
        andThen (error (js ''Node version manager missing; please install nvm.'')) (\<lambda>_.
        error (js ''https://github.com/nvm-sh/nvm''))
      else ok ())"

definition install_check :: "bool \<Rightarrow> unit io" where
  \<comment> \<open>the \<^verbatim>\<open>if (oldInstall)\<close> statement\<close>
  "install_check old =
     (if old then
        andThen (warn (js ''The last node_modules install is over a week old.'')) (\<lambda>_.
        warn (js ''Consider reinstalling dependencies: `npm ci`.''))
      else ok ())"

definition node_body :: "machine \<Rightarrow> unit io" where
  "node_body w =
     andThen (exec w (js ''node -v'')) (\<lambda>nodeVersion.
     andThen (hasNvm w) (\<lambda>has.
     andThen (stat w (js ''./node_modules/moment'')) (\<lambda>lastInstall.
     let old = oldInstall w lastInstall in
     andThen (log [label ''Version:'', Str (plain nodeVersion)]) (\<lambda>_.
     andThen (version_check w nodeVersion) (\<lambda>_.
     andThen (exec w (js ''npm -v'')) (\<lambda>npm.
     andThen (log [label ''npm:'', Str (plain npm)]) (\<lambda>_.
     andThen (log [label ''nvm:'', Bool has]) (\<lambda>_.
     andThen (nvm_check has) (\<lambda>_.
     andThen (log [label ''Env:'', env_value w (js ''NODE_ENV'')]) (\<lambda>_.
     andThen (readdir w (js ''./node_modules'')) (\<lambda>entries.
     andThen (log [label ''Modules:'', Num (Finite (int (length entries)))]) (\<lambda>_.
     andThen (log [label ''Installed:'', Str (plain (moment_fromNow w lastInstall))]) (\<lambda>_.
     install_check old)))))))))))))"

definition mainBranch :: jsstring where
  "mainBranch = js ''develop''"

definition threshold :: jsnum where
  "threshold = Finite 10"

definition rebase_check :: "machine \<Rightarrow> jsstring \<Rightarrow> jsnum \<Rightarrow> unit io" where
  \<comment> \<open>the \<^verbatim>\<open>if (difference > threshold)\<close> statement\<close>
  "rebase_check w branch difference =
     (if js_gt difference threshold then
        emit (Warn [Str (plain (js ''The local branch ('' @ branch @ js '') is over '' @
          to_String w threshold @ js '' commits apart ('' @ to_String w difference @
          js '') from '' @ mainBranch @ js ''; consider rebasing.''))])
      else ok ())"

definition git_body :: "machine \<Rightarrow> unit io" where
  "git_body w =
     andThen (exec w (js ''git branch --show-current'')) (\<lambda>branch.
     andThen (exec w (js ''git log --oneline '' @ branch @ js '' ^'' @ mainBranch @
                js '' | wc -l'')) (\<lambda>count.
     let difference = to_Number w count in
     andThen (log [label ''Branch:'', Str (plain branch)]) (\<lambda>_.
     andThen (log [label ''Difference:'', Num difference]) (\<lambda>_.
     andThen (rebase_check w branch difference) (\<lambda>_.
     andThen (exec w (js ''git log -1 --pretty=%B'')) (\<lambda>message.
     andThen (log [label ''Last commit:'', Str (plain (trim message))]) (\<lambda>_.
     andThen (exec w (js ''git status --porcelain'')) (\<lambda>status.
     log [label ''Clean:'', Bool (status = [])]))))))))"

definition main :: "machine \<Rightarrow> unit io" where
  "main w =
     andThen (section' w (js ''System'') (system_body w)) (\<lambda>_.
     andThen (section' w (js ''Node'') (node_body w)) (\<lambda>_.
     section' w (js ''Git'') (git_body w)))"

section \<open>Reading a trace\<close>

fun is_Warn :: "event \<Rightarrow> bool" where
  "is_Warn (Warn args) = True"
| "is_Warn ev = False"

fun is_Error :: "event \<Rightarrow> bool" where
  "is_Error (Error args) = True"
| "is_Error ev = False"

fun is_print :: "event \<Rightarrow> bool" where
  "is_print (Log args) = True"
| "is_print (Error args) = True"
| "is_print (Warn args) = True"
| "is_print ev = False"

section \<open>A sample machine\<close>

text \<open>
  A developer's workstation, for running the script on concrete inputs: Node 14 is
  installed, nvm is not, the dependencies were installed exactly seven days ago, the
  branch \<^verbatim>\<open>feature\<close> is eleven commits ahead of \<^verbatim>\<open>develop\<close>, the VPN is down and Docker is
  not installed. Its version comparison is the exact match that the range
  \<^verbatim>\<open>v12.18.3\<close> stands for, and its number conversions are decimal.
\<close>

fun decimal_digits :: "nat \<Rightarrow> jsstring" where
  "decimal_digits n =
     (if n < 10 then [of_nat (48 + n)]
      else decimal_digits (n div 10) @ [of_nat (48 + n mod 10)])"

fun decimal_String :: "jsnum \<Rightarrow> jsstring" where
  "decimal_String NaN = js ''NaN''"
| "decimal_String (Finite i) =
     (if i < 0 then js ''-'' @ decimal_digits (nat (- i)) else decimal_digits (nat i))"

fun digits_value :: "jsstring \<Rightarrow> nat \<Rightarrow> jsnum" where
  "digits_value [] acc = Finite (int acc)"
| "digits_value (c # cs) acc =
     (if 0x30 \<le> c \<and> c \<le> 0x39 then digits_value cs (10 * acc + unat (c - 0x30))
      else NaN)"

definition decimal_Number :: "jsstring \<Rightarrow> jsnum" where
  "decimal_Number s = (if trim s = [] then Finite 0 else digits_value (trim s) 0)"

definition sample_processes :: "jsstring \<Rightarrow> proc_outcome" where
  "sample_processes command =
     (if command = js ''node -v'' then Exited 0 (js ''v14.0.0\<newline>'')
      else if command = js ''echo $NVM_DIR'' then Exited 0 (js ''\<newline>'')
      else if command = js ''npm -v'' then Exited 0 (js ''6.14.6\<newline>'')
      else if command = js ''git branch --show-current'' then Exited 0 (js ''  feature\<newline>'')
      else if command = js ''git log --oneline feature ^develop | wc -l''
        then Exited 0 (js ''      11\<newline>'')
      else if command = js ''git log -1 --pretty=%B''
        then Exited 0 (js ''Add report\<newline>\<newline>'')
      else if command = js ''git status --porcelain'' then Exited 0 []
      else Exited 127 [])"

definition workstation :: machine where
  "workstation =
     \<lparr> run_process = sample_processes,
       axios_get = (\<lambda>url. Some (Rejected (js ''ETIMEDOUT''))),
       dns_resolve = (\<lambda>host. None),
       stat_birthtime =
         (\<lambda>path. if path = js ''./node_modules/moment'' then Inr 1600000000000
                  else Inl (Rejected (js ''ENOENT''))),
       readdir_entries =
         (\<lambda>path. if path = js ''./node_modules'' then Inr [js ''chalk'', js ''moment'']
                  else Inl (Rejected (js ''ENOENT''))),
       columns = Some 80,
       environ = (\<lambda>name. if name = js ''USERNAME'' then Some (js ''dev'') else None),
       platform = js ''linux'',
       cpus = 8,
       now = 1600000000000 + 7 * 86400000,
       utc_offset = (\<lambda>t. 120),
       semver_satisfies = (\<lambda>version range. version = range),
       moment_fromNow = (\<lambda>t. js ''7 days ago''),
       to_Number = decimal_Number,
       to_String = decimal_String \<rparr>"

definition workstation_with_count :: "jsstring \<Rightarrow> machine" where
  \<comment> \<open>the same workstation, with another answer of \<^verbatim>\<open>wc -l\<close> to the commit count\<close>
  "workstation_with_count out =
     workstation
       \<lparr> run_process :=
           (\<lambda>command.
              if command = js ''git log --oneline feature ^develop | wc -l'' then Exited 0 out
              else sample_processes command) \<rparr>"

definition autumn_workstation :: machine where
  \<comment> \<open>the same workstation in Central Europe in October 2020: the dependencies were
      installed on 20 October at 13:20 UTC, summer time (UTC+2) ended on 25 October at
      01:00 UTC, and the script runs exactly \<open>7 * 86400000\<close> milliseconds after the install\<close>
  "autumn_workstation =
     workstation
       \<lparr> stat_birthtime :=
           (\<lambda>path. if path = js ''./node_modules/moment'' then Inr 1603200000000
                    else Inl (Rejected (js ''ENOENT''))),
         now := 1603200000000 + 7 * 86400000,
         utc_offset := (\<lambda>t. if t < 1603587600000 then 120 else 60) \<rparr>"

section \<open>Laws of sequencing\<close>

lemma andThen_Inr: "andThen (t, Inr x) f = (t @ fst (f x), snd (f x))"
  by (simp add: andThen_def)

lemma andThen_Inl: "andThen (t, Inl e) f = (t, Inl e)"
  by (simp add: andThen_def)

lemma andThen_emit: "andThen (emit ev) f = (ev # fst (f ()), snd (f ()))"
  by (simp add: andThen_def emit_def)

lemma andThen_log: "andThen (log args) f = (Log args # fst (f ()), snd (f ()))"
  by (simp add: log_def andThen_emit)

lemma andThen_lift_Inr: "andThen (lift (Inr x)) f = f x"
  by (simp add: andThen_def lift_def)

lemma andThen_lift_Inl: "andThen (lift (Inl e)) f = ([], Inl e)"
  by (simp add: andThen_def lift_def)

lemma filter_andThen:
  "filter P (fst (andThen m f)) =
     filter P (fst m) @ (case snd m of Inl e \<Rightarrow> [] | Inr x \<Rightarrow> filter P (fst (f x)))"
  by (simp add: andThen_def split: sum.splits)

lemma try_catch_Inr: "try_catch (t, Inr x) h = (t, Inr x)"
  by (simp add: try_catch_def)

lemma try_catch_Inl: "try_catch (t, Inl e) h = (t @ fst h, snd h)"
  by (simp add: try_catch_def)

section \<open>What each call of the platform leaves in the trace\<close>

lemma execSync_run: "execSync w c = ([Spawn c], exit_value (run_process w c))"
  by (simp add: execSync_def andThen_emit lift_def)

lemma exec_run: "exec w c = ([Spawn c], map_sum id trim (exit_value (run_process w c)))"
  by (cases "exit_value (run_process w c)")
     (simp_all add: exec_def execSync_run andThen_Inr andThen_Inl ok_def)

lemma exec_ok:
  "run_process w c = Exited 0 out \<Longrightarrow> exec w c = ([Spawn c], Inr (trim out))"
  by (simp add: exec_run)

lemma stat_run: "stat w path = ([Stat path], stat_birthtime w path)"
  by (simp add: stat_def andThen_emit lift_def)

lemma readdir_run: "readdir w path = ([Readdir path], readdir_entries w path)"
  by (simp add: readdir_def andThen_emit lift_def)

lemma error_run:
  "error message = ([Error [Str (chalk Red (arrow # js '' '' @ message))]], Inr ())"
  by (simp add: error_def emit_def)

lemma warn_run:
  "warn message = ([Warn [Str (chalk Yellow (arrow # js '' '' @ message))]], Inr ())"
  by (simp add: warn_def emit_def)

lemma ping_run: "ping w url = ([HttpGet url], Inr (axios_get w url = None))"
  by (cases "axios_get w url")
     (simp_all add: ping_def axios_get_call_def andThen_emit lift_def andThen_Inr andThen_Inl
        try_catch_Inr try_catch_Inl ok_def)

lemma hasInternetAccess_run:
  "hasInternetAccess w =
     ([DnsResolve (js ''www.google.com'')], Inr (dns_resolve w (js ''www.google.com'') = None))"
  by (cases "dns_resolve w (js ''www.google.com'')")
     (simp_all add: hasInternetAccess_def dns_resolve_call_def andThen_emit lift_def andThen_Inr
        andThen_Inl try_catch_Inr try_catch_Inl ok_def)

lemma isDockerRunning_run:
  "isDockerRunning w =
     ([Spawn (js ''docker version'')], Inr (succeeded (run_process w (js ''docker version''))))"
  by (cases "run_process w (js ''docker version'')")
     (simp_all add: isDockerRunning_def execSync_run andThen_Inr andThen_Inl
        try_catch_Inr try_catch_Inl ok_def)

lemma system_body_returns: "snd (system_body w) = Inr ()"
  unfolding system_body_def
  by (simp add: ping_run hasInternetAccess_run isDockerRunning_run andThen_Inr andThen_log
        log_def emit_def)

section \<open>Trimming\<close>

lemma trimStart_decomp: "\<exists>pre. s = pre @ trimStart s \<and> list_all isWhiteSpace pre"
  unfolding trimStart_def
  by (rule exI [of _ "takeWhile isWhiteSpace s"]) (auto simp: list_all_iff dest: set_takeWhileD)

lemma trimEnd_decomp: "\<exists>post. s = trimEnd s @ post \<and> list_all isWhiteSpace post"
proof -
  have "s = rev (takeWhile isWhiteSpace (rev s) @ dropWhile isWhiteSpace (rev s))"
    by simp
  also have "\<dots> = trimEnd s @ rev (takeWhile isWhiteSpace (rev s))"
    by (simp only: rev_append trimEnd_def)
  finally have "s = trimEnd s @ rev (takeWhile isWhiteSpace (rev s))" .
  moreover have "list_all isWhiteSpace (rev (takeWhile isWhiteSpace (rev s)))"
    by (auto simp: list_all_iff dest: set_takeWhileD)
  ultimately show ?thesis by blast
qed

lemma trim_decomp:
  "\<exists>pre post. s = pre @ trim s @ post \<and> list_all isWhiteSpace pre \<and> list_all isWhiteSpace post"
proof -
  obtain pre where pre: "s = pre @ trimStart s" "list_all isWhiteSpace pre"
    using trimStart_decomp by blast
  obtain post where post: "trimStart s = trimEnd (trimStart s) @ post" "list_all isWhiteSpace post"
    using trimEnd_decomp by blast
  have "s = pre @ trim s @ post"
    using pre(1) post(1) by (simp add: trim_def)
  with pre(2) post(2) show ?thesis by blast
qed

lemma trimStart_hd: "trimStart s \<noteq> [] \<Longrightarrow> \<not> isWhiteSpace (hd (trimStart s))"
  unfolding trimStart_def by (rule hd_dropWhile)

lemma trimEnd_last: "trimEnd s \<noteq> [] \<Longrightarrow> \<not> isWhiteSpace (last (trimEnd s))"
  unfolding trimEnd_def by (simp add: last_rev hd_dropWhile)

lemma trim_stripped:
  "trim s = [] \<or> (\<not> isWhiteSpace (hd (trim s)) \<and> \<not> isWhiteSpace (last (trim s)))"
proof (cases "trim s = []")
  case True
  then show ?thesis by simp
next
  case False
  obtain post where post: "trimStart s = trim s @ post"
    using trimEnd_decomp [of "trimStart s"] by (auto simp: trim_def)
  with False have "hd (trim s) = hd (trimStart s)" and "trimStart s \<noteq> []"
    by (metis hd_append2, metis append_is_Nil_conv)
  then have "\<not> isWhiteSpace (hd (trim s))"
    using trimStart_hd by simp
  moreover have "\<not> isWhiteSpace (last (trim s))"
    using False trimEnd_last [of "trimStart s"] by (simp add: trim_def)
  ultimately show ?thesis by simp
qed

section \<open>The section renderer, case by case\<close>

lemma callback_then_blank:
  fixes callback :: "unit io"
  shows "andThen callback (\<lambda>_. log [Str (plain [])]) =
     (fst callback @ (if isl (snd callback) then [] else [Log [Str (plain [])]]), snd callback)"
  by (cases "snd callback") (simp_all add: andThen_def log_def emit_def)

lemma concat_replicate_single: "concat (replicate n [x]) = replicate n x"
  by (induction n) simp_all

lemma banner_visible:
  "visible (chalk Dim a @ chalk Green name @ plain pad @ chalk Dim b) = a @ name @ pad @ b"
  by (simp add: visible_def chalk_def plain_def)

lemma section_narrow:
  assumes "columns w = Some W" and "int W - 4 < int (length name)"
  shows "section' w name callback =
           ([Log [Str (chalk Dim (concat (replicate W (js ''=''))))]], Inl RangeError)"
  using assms
  by (simp add: section'_def Let_def andThen_lift_Inr andThen_lift_Inl andThen_log)

lemma section_wide:
  assumes "columns w = Some W" and "length name + 4 \<le> W"
  shows "section' w name callback =
           ([Log [Str (chalk Dim (concat (replicate W (js ''=''))))],
             Log [Str (chalk Dim (js ''* '') @ chalk Green name @
                    plain (concat (replicate (W - length name - 4) (js '' ''))) @
                    chalk Dim (js '' *''))],
             Log [Str (chalk Dim (concat (replicate W (js ''=''))))]]
            @ fst callback @ (if isl (snd callback) then [] else [Log [Str (plain [])]]),
            snd callback)"
proof -
  have "nat (int W - int (length name) - 4) = W - length name - 4"
    by simp
  with assms show ?thesis
    by (simp add: section'_def Let_def andThen_lift_Inr andThen_lift_Inl andThen_log
          callback_then_blank)
qed

lemma section_undefined:
  assumes "columns w = None"
  shows "section' w name callback =
           ([Log [Str (chalk Dim [])],
             Log [Str (chalk Dim (js ''* '') @ chalk Green name @ plain [] @ chalk Dim (js '' *''))],
             Log [Str (chalk Dim [])]]
            @ fst callback @ (if isl (snd callback) then [] else [Log [Str (plain [])]]),
            snd callback)"
  using assms
  by (simp add: section'_def Let_def andThen_lift_Inr andThen_lift_Inl andThen_log
        callback_then_blank)

section \<open>The Node section, step by step\<close>

lemma version_check_run:
  "version_check w v =
     (if semver_satisfies w v expected then []
      else [Error [Str (chalk Red (arrow # js '' '' @ js ''Installed Node version ('' @ v @
                    js '') does not satisfy expectations ('' @ expected @
                    js ''); please update.''))],
            Error [Str (chalk Red (arrow # js '' '' @ js ''nvm install '' @ slice_from 2 expected))]],
      Inr ())"
  by (simp add: version_check_def error_run andThen_Inr ok_def)

lemma nvm_check_run:
  "nvm_check has =
     (if has then []
      else [Error [Str (chalk Red (arrow # js '' '' @
                    js ''Node version manager missing; please install nvm.''))],
            Error [Str (chalk Red (arrow # js '' '' @ js ''https://github.com/nvm-sh/nvm''))]],
      Inr ())"
  by (simp add: nvm_check_def error_run andThen_Inr ok_def)

lemma install_check_run:
  "install_check old =
     (if old
      then [Warn [Str (chalk Yellow (arrow # js '' '' @
                    js ''The last node_modules install is over a week old.''))],
            Warn [Str (chalk Yellow (arrow # js '' '' @
                    js ''Consider reinstalling dependencies: `npm ci`.''))]]
      else [],
      Inr ())"
  by (simp add: install_check_def warn_run andThen_Inr ok_def)

lemma hasNvm_run:
  "hasNvm w = ([Spawn (js ''echo $NVM_DIR'')],
     map_sum id (\<lambda>out. trim out \<noteq> []) (exit_value (run_process w (js ''echo $NVM_DIR''))))"
  by (cases "exit_value (run_process w (js ''echo $NVM_DIR''))")
     (simp_all add: hasNvm_def exec_run andThen_Inr andThen_Inl ok_def)

lemma node_body_run:
  assumes "run_process w (js ''node -v'') = Exited 0 v"
      and "run_process w (js ''echo $NVM_DIR'') = Exited 0 nv"
      and "stat_birthtime w (js ''./node_modules/moment'') = Inr birth"
      and "run_process w (js ''npm -v'') = Exited 0 npm"
      and "readdir_entries w (js ''./node_modules'') = Inr entries"
  shows "node_body w =
    ([Spawn (js ''node -v''), Spawn (js ''echo $NVM_DIR''), Stat (js ''./node_modules/moment''),
      Log [label ''Version:'', Str (plain (trim v))]]
     @ fst (version_check w (trim v))
     @ [Spawn (js ''npm -v''), Log [label ''npm:'', Str (plain (trim npm))],
        Log [label ''nvm:'', Bool (trim nv \<noteq> [])]]
     @ fst (nvm_check (trim nv \<noteq> []))
     @ [Log [label ''Env:'', env_value w (js ''NODE_ENV'')], Readdir (js ''./node_modules''),
        Log [label ''Modules:'', Num (Finite (int (length entries)))],
        Log [label ''Installed:'', Str (plain (moment_fromNow w birth))]]
     @ fst (install_check (oldInstall w birth)),
     Inr ())"
  unfolding node_body_def Let_def
  by (simp add: exec_ok [OF assms(1)] exec_ok [OF assms(4)] hasNvm_run assms(2) stat_run assms(3)
        readdir_run assms(5) andThen_Inr andThen_log version_check_run nvm_check_run
        install_check_run)

lemma node_body_upto_env:
  assumes "run_process w (js ''node -v'') = Exited 0 v"
      and "run_process w (js ''echo $NVM_DIR'') = Exited 0 nv"
      and "stat_birthtime w (js ''./node_modules/moment'') = Inr birth"
      and "run_process w (js ''npm -v'') = Exited 0 npm"
  shows "\<exists>rest. fst (node_body w) =
    ([Spawn (js ''node -v''), Spawn (js ''echo $NVM_DIR''), Stat (js ''./node_modules/moment''),
      Log [label ''Version:'', Str (plain (trim v))]]
     @ fst (version_check w (trim v))
     @ [Spawn (js ''npm -v''), Log [label ''npm:'', Str (plain (trim npm))]])
     @ (Log [label ''nvm:'', Bool (trim nv \<noteq> [])]
        # fst (nvm_check (trim nv \<noteq> []))
        @ [Log [label ''Env:'', env_value w (js ''NODE_ENV'')]]) @ rest"
  unfolding node_body_def Let_def
  by (simp add: exec_ok [OF assms(1)] exec_ok [OF assms(4)] hasNvm_run assms(2) stat_run assms(3)
        andThen_Inr andThen_log version_check_run nvm_check_run)

lemma node_body_stat_fails:
  assumes "stat_birthtime w (js ''./node_modules/moment'') = Inl e"
  shows "prefix (fst (node_body w))
           [Spawn (js ''node -v''), Spawn (js ''echo $NVM_DIR''), Stat (js ''./node_modules/moment'')]
         \<and> isl (snd (node_body w))"
proof (cases "exit_value (run_process w (js ''node -v''))")
  case (Inl a)
  then show ?thesis
    unfolding node_body_def by (simp add: exec_run andThen_Inl)
next
  case v: (Inr v)
  show ?thesis
  proof (cases "exit_value (run_process w (js ''echo $NVM_DIR''))")
    case (Inl a)
    then show ?thesis
      unfolding node_body_def by (simp add: exec_run v hasNvm_run andThen_Inl andThen_Inr)
  next
    case (Inr nv)
    then show ?thesis
      unfolding node_body_def
      by (simp add: exec_run v hasNvm_run stat_run assms andThen_Inl andThen_Inr)
  qed
qed

lemma node_body_stat_fails_after_queries:
  assumes "stat_birthtime w (js ''./node_modules/moment'') = Inl e"
      and "run_process w (js ''node -v'') = Exited 0 v"
      and "run_process w (js ''echo $NVM_DIR'') = Exited 0 nv"
  shows "node_body w =
           ([Spawn (js ''node -v''), Spawn (js ''echo $NVM_DIR''),
             Stat (js ''./node_modules/moment'')], Inl e)"
  unfolding node_body_def
  by (simp add: exec_ok [OF assms(2)] hasNvm_run assms(3) stat_run assms(1) andThen_Inl
        andThen_Inr)

lemma le_div_iff_int:
  assumes "0 < (b::int)"
  shows "(k \<le> a div b) = (k * b \<le> a)"
proof
  assume "k \<le> a div b"
  then have "k * b \<le> (a div b) * b"
    using assms by (simp add: mult_right_mono)
  moreover have "0 \<le> a mod b"
    using assms by simp
  moreover have "(a div b) * b + a mod b = a"
    by simp
  ultimately show "k * b \<le> a"
    by linarith
next
  assume "k * b \<le> a"
  then have "(k * b) div b \<le> a div b"
    using assms by (rule zdiv_mono1)
  then show "k \<le> a div b"
    using assms by simp
qed

lemma absFloor_ge:
  assumes "0 < b" and "0 < k"
  shows "(k \<le> absFloor a b) = (k * b \<le> a)"
proof (cases "a < 0")
  case True
  then have "0 \<le> (- a) div b"
    using assms(1) by (simp add: pos_imp_zdiv_nonneg_iff)
  then have "\<not> k \<le> absFloor a b"
    using True assms(2) by (simp add: absFloor_def)
  moreover have "0 < k * b"
    using assms by simp
  then have "\<not> k * b \<le> a"
    using True by linarith
  ultimately show ?thesis by simp
next
  case False
  then show ?thesis
    using le_div_iff_int [OF assms(1)] by (simp add: absFloor_def)
qed

lemma seven_days: "(7 \<le> absFloor a 86400000) = (7 * 86400000 \<le> a)"
  using absFloor_ge [of 86400000 7 a] by simp

section \<open>The Git section, step by step\<close>

lemma rebase_check_run:
  "rebase_check w branch difference =
     (if js_gt difference threshold
      then [Warn [Str (plain (js ''The local branch ('' @ branch @ js '') is over '' @
          to_String w threshold @ js '' commits apart ('' @ to_String w difference @
          js '') from '' @ mainBranch @ js ''; consider rebasing.''))]]
      else [],
      Inr ())"
  by (simp add: rebase_check_def emit_def ok_def)

lemma git_body_warnings:
  assumes "run_process w (js ''git branch --show-current'') = Exited 0 b"
      and "run_process w (js ''git log --oneline '' @ trim b @ js '' ^'' @ mainBranch @
             js '' | wc -l'') = Exited 0 c"
  shows "filter is_Warn (fst (git_body w)) =
           fst (rebase_check w (trim b) (to_Number w (trim c)))"
  unfolding git_body_def Let_def
  by (simp add: filter_andThen exec_run assms log_def emit_def rebase_check_run
        split: sum.splits)

section \<open>The sample machine's answers\<close>

lemma workstation_node:
  "run_process workstation (js ''node -v'') = Exited 0 (js ''v14.0.0\<newline>'')"
  by (simp add: workstation_def sample_processes_def)

lemma workstation_echo:
  "run_process workstation (js ''echo $NVM_DIR'') = Exited 0 (js ''\<newline>'')"
  by (simp add: workstation_def sample_processes_def js_def)

lemma workstation_npm:
  "run_process workstation (js ''npm -v'') = Exited 0 (js ''6.14.6\<newline>'')"
  by (simp add: workstation_def sample_processes_def js_def)

lemma workstation_stat:
  "stat_birthtime workstation (js ''./node_modules/moment'') = Inr 1600000000000"
  by (simp add: workstation_def)

lemma workstation_readdir:
  "readdir_entries workstation (js ''./node_modules'') = Inr [js ''chalk'', js ''moment'']"
  by (simp add: workstation_def)

lemma workstation_branch:
  "run_process (workstation_with_count out) (js ''git branch --show-current'') =
     Exited 0 (js ''  feature\<newline>'')"
  by (simp add: workstation_with_count_def sample_processes_def js_def)

lemma trim_feature: "trim (js ''  feature\<newline>'') = js ''feature''"
  by (simp add: trim_def trimStart_def trimEnd_def js_def isWhiteSpace_def)

lemma workstation_count:
  "run_process (workstation_with_count out)
     (js ''git log --oneline '' @ trim (js ''  feature\<newline>'') @ js '' ^develop | wc -l'') =
   Exited 0 out"
  by (simp add: trim_feature) (simp add: workstation_with_count_def js_def)

lemma workstation_Number:
  "to_Number (workstation_with_count out) = decimal_Number"
  by (simp add: workstation_with_count_def workstation_def)

lemma decimal_Number_11: "decimal_Number (trim (js ''      11\<newline>'')) = Finite 11"
  by (simp add: decimal_Number_def trim_def trimStart_def trimEnd_def js_def isWhiteSpace_def)

lemma decimal_Number_10: "decimal_Number (trim (js ''10\<newline>'')) = Finite 10"
  by (simp add: decimal_Number_def trim_def trimStart_def trimEnd_def js_def isWhiteSpace_def)

section \<open>The trapped checks\<close>

text \<open>
  Claim C1. The three trapped checks never raise and collapse every failure to the
  boolean false. For every machine and every URL, \<open>ping\<close> makes the one HTTPS GET and
  returns whether it went through, whatever the error was; \<open>hasInternetAccess\<close> makes
  the one DNS query for \<^verbatim>\<open>www.google.com\<close> and returns whether it resolved;
  \<open>isDockerRunning\<close> runs \<^verbatim>\<open>docker version\<close> and returns whether it exited with status 0.
  Each result is a value (\<open>Inr\<close>), never an exception.
\<close>

theorem trapped_checks_never_raise:
  "ping w url = ([HttpGet url], Inr (axios_get w url = None))
   \<and> hasInternetAccess w =
       ([DnsResolve (js ''www.google.com'')], Inr (dns_resolve w (js ''www.google.com'') = None))
   \<and> isDockerRunning w =
       ([Spawn (js ''docker version'')], Inr (succeeded (run_process w (js ''docker version''))))"
  by (simp only: ping_run hasInternetAccess_run isDockerRunning_run)

section \<open>The shell executor\<close>

text \<open>
  Claim C5. For every command, \<open>exec\<close> starts the one subprocess; when it exits with
  status 0 the result is its standard output trimmed, and when it exits non-zero or
  could not be run, \<open>exec\<close> raises. The trimmed output is the output without a run of
  white space at each end: it is empty or starts and ends with a character that is not
  white space. A command that prints \<^verbatim>\<open>"  develop\n"\<close> yields \<^verbatim>\<open>"develop"\<close>.
\<close>

theorem exec_returns_trimmed_stdout:
  "exec w command = ([Spawn command],
       case run_process w command of
         Exited n out \<Rightarrow> if n = 0 then Inr (trim out) else Inl (CommandFailed n)
       | Aborted code \<Rightarrow> Inl (Rejected code))
   \<and> (trim out = [] \<or> (\<not> isWhiteSpace (hd (trim out)) \<and> \<not> isWhiteSpace (last (trim out))))
   \<and> (\<exists>pre post. out = pre @ trim out @ post \<and>
         list_all isWhiteSpace pre \<and> list_all isWhiteSpace post)
   \<and> trim (js ''  develop\<newline>'') = js ''develop''"
proof (intro conjI)
  show "exec w command = ([Spawn command],
       case run_process w command of
         Exited n out \<Rightarrow> if n = 0 then Inr (trim out) else Inl (CommandFailed n)
       | Aborted code \<Rightarrow> Inl (Rejected code))"
    by (cases "run_process w command") (simp_all add: exec_run)
  show "trim out = [] \<or> (\<not> isWhiteSpace (hd (trim out)) \<and> \<not> isWhiteSpace (last (trim out)))"
    by (rule trim_stripped)
  show "\<exists>pre post. out = pre @ trim out @ post \<and>
          list_all isWhiteSpace pre \<and> list_all isWhiteSpace post"
    by (rule trim_decomp)
  show "trim (js ''  develop\<newline>'') = js ''develop''"
    by (simp add: trim_def trimStart_def trimEnd_def js_def isWhiteSpace_def)
qed

section \<open>The section banner\<close>

text \<open>
  Claim C6, as amended. For every terminal width \<open>W\<close> and every title with
  \<open>length name + 4 \<le> W\<close>, the second line \<open>section\<close> prints shows exactly \<open>W\<close> characters
  (UTF-16 code units, as \<^verbatim>\<open>length\<close> counts them): the start marker \<^verbatim>\<open>"* "\<close>, the title
  right after it, \<open>W - length name - 4\<close> spaces and the end marker \<^verbatim>\<open>" *"\<close>. The first line
  is the divider of \<open>W\<close> equals signs.
\<close>

theorem section_banner_width:
  assumes "columns w = Some W" and "length name + 4 \<le> W"
  shows "\<exists>mid. take 2 (fst (section' w name callback)) =
             [Log [Str (chalk Dim (replicate W 0x3D))], Log [Str mid]]
           \<and> visible mid = js ''* '' @ name @ replicate (W - length name - 4) 0x20 @ js '' *''
           \<and> length (visible mid) = W"
proof -
  let ?mid = "chalk Dim (js ''* '') @ chalk Green name @
                plain (concat (replicate (W - length name - 4) (js '' ''))) @
                chalk Dim (js '' *'')"
  have eqs: "concat (replicate W (js ''='')) = replicate W 0x3D"
    by (simp add: js_def concat_replicate_single)
  have pad: "concat (replicate (W - length name - 4) (js '' '')) =
               replicate (W - length name - 4) 0x20"
    by (simp add: js_def concat_replicate_single)
  have "take 2 (fst (section' w name callback)) =
          [Log [Str (chalk Dim (replicate W 0x3D))], Log [Str ?mid]]"
    by (simp add: section_wide [OF assms] eqs)
  moreover have "visible ?mid =
      js ''* '' @ name @ replicate (W - length name - 4) 0x20 @ js '' *''"
    by (simp only: banner_visible pad)
  moreover have "length (visible ?mid) = W"
    using assms(2) by (simp only: banner_visible pad) (simp add: js_def)
  ultimately show ?thesis by blast
qed

text \<open>On the workstation's 80 columns, the banner of the System section.\<close>

theorem section_banner_width_witness:
  "columns workstation = Some 80 \<and> length (js ''System'') + 4 \<le> 80 \<and>
   (\<exists>mid. take 2 (fst (section' workstation (js ''System'') (system_body workstation))) =
             [Log [Str (chalk Dim (replicate 80 0x3D))], Log [Str mid]]
           \<and> visible mid =
               js ''* '' @ js ''System'' @ replicate (80 - length (js ''System'') - 4) 0x20 @ js '' *''
           \<and> length (visible mid) = 80)"
proof -
  have c: "columns workstation = Some 80"
    by (simp add: workstation_def)
  have l: "length (js ''System'') + 4 \<le> 80"
    by (simp add: js_def)
  from c l section_banner_width [OF c l, of "system_body workstation"] show ?thesis
    by blast
qed

text \<open>
  The claim as it is written, for every width, fails on a terminal of 9 columns: the
  title \<^verbatim>\<open>System\<close> leaves \<open>9 - 6 - 4 = -1\<close> spaces of padding, \<^verbatim>\<open>repeat\<close> throws, and the run
  prints the first divider and no banner line at all.
\<close>

theorem section_banner_counterexample:
  "section' (workstation\<lparr>columns := Some 9\<rparr>) (js ''System'')
      (system_body (workstation\<lparr>columns := Some 9\<rparr>)) =
   ([Log [Str (chalk Dim (js ''=========''))]], Inl RangeError)"
proof -
  have "concat (replicate 9 (js ''='')) = js ''=========''"
    by (simp add: js_def eval_nat_numeral)
  then show ?thesis
    using section_narrow [of "workstation\<lparr>columns := Some 9\<rparr>" 9 "js ''System''"
            "system_body (workstation\<lparr>columns := Some 9\<rparr>)"]
    by (simp add: js_def)
qed

text \<open>
  Claim C8. When the terminal reports a width \<open>W\<close> and the title is longer than \<open>W - 4\<close>,
  \<open>section\<close> prints the first divider and raises \<^verbatim>\<open>RangeError\<close>; the run is the same
  whatever the body is, so the body is never started.
\<close>

theorem section_long_title_raises:
  assumes "columns w = Some W" and "int W - 4 < int (length name)"
  shows "section' w name callback =
           ([Log [Str (chalk Dim (replicate W 0x3D))]], Inl RangeError)"
  using section_narrow [OF assms] by (simp add: js_def concat_replicate_single)

text \<open>On a terminal of 6 columns, the Git section.\<close>

theorem section_long_title_raises_witness:
  "columns (workstation\<lparr>columns := Some 6\<rparr>) = Some 6 \<and>
   int 6 - 4 < int (length (js ''Git'')) \<and>
   section' (workstation\<lparr>columns := Some 6\<rparr>) (js ''Git'')
       (git_body (workstation\<lparr>columns := Some 6\<rparr>)) =
     ([Log [Str (chalk Dim (replicate 6 0x3D))]], Inl RangeError)"
proof -
  have c: "columns (workstation\<lparr>columns := Some 6\<rparr>) = Some 6"
    by simp
  have l: "int 6 - 4 < int (length (js ''Git''))"
    by (simp add: js_def)
  from c l section_long_title_raises
             [OF c l, of "git_body (workstation\<lparr>columns := Some 6\<rparr>)"]
  show ?thesis
    by blast
qed

text \<open>
  Claim C9. When \<^verbatim>\<open>process.stdout.columns\<close> is undefined, \<open>section\<close> itself does not
  raise for any title: both dividers are printed as empty strings, the banner shows the
  start marker, the title and the end marker and nothing else, the body runs, and the
  blank line follows when the body returns. The section raises only what its body
  raises.
\<close>

theorem section_without_width:
  assumes "columns w = None"
  shows "fst (section' w name callback) =
           [Log [Str (chalk Dim [])],
            Log [Str (chalk Dim (js ''* '') @ chalk Green name @ plain [] @ chalk Dim (js '' *''))],
            Log [Str (chalk Dim [])]]
           @ fst callback @ (if isl (snd callback) then [] else [Log [Str (plain [])]])
       \<and> snd (section' w name callback) = snd callback
       \<and> visible (chalk Dim []) = []
       \<and> visible (chalk Dim (js ''* '') @ chalk Green name @ plain [] @ chalk Dim (js '' *'')) =
           js ''* '' @ name @ js '' *''"
  by (simp add: section_undefined [OF assms] banner_visible) (simp add: visible_def chalk_def)

text \<open>With the output piped, the System section: its body runs and returns.\<close>

theorem section_without_width_witness:
  "columns (workstation\<lparr>columns := None\<rparr>) = None \<and>
   fst (section' (workstation\<lparr>columns := None\<rparr>) (js ''System'')
          (system_body (workstation\<lparr>columns := None\<rparr>))) =
     [Log [Str (chalk Dim [])],
      Log [Str (chalk Dim (js ''* '') @ chalk Green (js ''System'') @ plain [] @
             chalk Dim (js '' *''))],
      Log [Str (chalk Dim [])]]
     @ fst (system_body (workstation\<lparr>columns := None\<rparr>)) @ [Log [Str (plain [])]] \<and>
   snd (section' (workstation\<lparr>columns := None\<rparr>) (js ''System'')
          (system_body (workstation\<lparr>columns := None\<rparr>))) = Inr ()"
proof -
  have c: "columns (workstation\<lparr>columns := None\<rparr>) = None"
    by simp
  from c section_without_width [OF c, of "js ''System''"
           "system_body (workstation\<lparr>columns := None\<rparr>)"]
  show ?thesis
    by (simp add: system_body_returns)
qed

section \<open>The Node section\<close>

text \<open>
  Claim C2. For every installed version string, the version check prints nothing when
  \<^verbatim>\<open>semver.satisfies\<close> accepts it against \<^verbatim>\<open>v12.18.3\<close>, and exactly two error lines when
  it does not. The second line is the remediation command. The script builds it with
  \<^verbatim>\<open>expected.slice(2)\<close>, which drops the two characters \<^verbatim>\<open>v1\<close>, so the line reads
  \<^verbatim>\<open>nvm install 2.18.3\<close> and does not contain \<^verbatim>\<open>12.18.3\<close>. On the workstation, where
  \<^verbatim>\<open>node -v\<close> prints \<^verbatim>\<open>v14.0.0\<close>, these are the first two of the section's error lines.
\<close>

theorem version_check_prints:
  "version_check w nodeVersion =
     (if semver_satisfies w nodeVersion expected then []
      else [Error [Str (chalk Red (arrow # js '' Installed Node version ('' @ nodeVersion @
                     js '') does not satisfy expectations (v12.18.3); please update.''))],
            Error [Str (chalk Red (arrow # js '' nvm install 2.18.3''))]],
      Inr ())
   \<and> slice_from 2 expected = js ''2.18.3''
   \<and> \<not> sublist (js ''12.18.3'') (visible (chalk Red (arrow # js '' nvm install 2.18.3'')))
   \<and> filter is_Error (fst (node_body workstation)) =
       [Error [Str (chalk Red (arrow # js '' Installed Node version (v14.0.0) does not satisfy expectations (v12.18.3); please update.''))],
        Error [Str (chalk Red (arrow # js '' nvm install 2.18.3''))],
        Error [Str (chalk Red (arrow # js '' Node version manager missing; please install nvm.''))],
        Error [Str (chalk Red (arrow # js '' https://github.com/nvm-sh/nvm''))]]"
proof (intro conjI)
  have "trim (js ''v14.0.0\<newline>'') = js ''v14.0.0''" and "trim (js ''\<newline>'') = []"
    by (simp_all add: trim_def trimStart_def trimEnd_def js_def isWhiteSpace_def)
  moreover have "\<not> semver_satisfies workstation (js ''v14.0.0'') expected"
    by (simp add: workstation_def expected_def js_def)
  ultimately show "filter is_Error (fst (node_body workstation)) =
       [Error [Str (chalk Red (arrow # js '' Installed Node version (v14.0.0) does not satisfy expectations (v12.18.3); please update.''))],
        Error [Str (chalk Red (arrow # js '' nvm install 2.18.3''))],
        Error [Str (chalk Red (arrow # js '' Node version manager missing; please install nvm.''))],
        Error [Str (chalk Red (arrow # js '' https://github.com/nvm-sh/nvm''))]]"
    by (simp add: node_body_run [OF workstation_node workstation_echo workstation_stat
                    workstation_npm workstation_readdir]
          version_check_run nvm_check_run install_check_run)
       (simp add: js_def expected_def slice_from_def)
  show "version_check w nodeVersion =
     (if semver_satisfies w nodeVersion expected then []
      else [Error [Str (chalk Red (arrow # js '' Installed Node version ('' @ nodeVersion @
                     js '') does not satisfy expectations (v12.18.3); please update.''))],
            Error [Str (chalk Red (arrow # js '' nvm install 2.18.3''))]],
      Inr ())"
    by (simp add: version_check_run) (simp add: js_def expected_def slice_from_def)
  show "slice_from 2 expected = js ''2.18.3''"
    by (simp add: js_def expected_def slice_from_def)
  show "\<not> sublist (js ''12.18.3'') (visible (chalk Red (arrow # js '' nvm install 2.18.3'')))"
    by (simp add: visible_def chalk_def js_def arrow_def sublist_Cons_right prefix_Cons)
qed

text \<open>
  Claim C7. If the stat of \<^verbatim>\<open>./node_modules/moment\<close> fails, the Node section's body
  raises: what it has done by then is at most the two version queries and the stat
  itself, it has printed nothing, and it has neither run \<^verbatim>\<open>npm -v\<close> nor read
  \<^verbatim>\<open>./node_modules\<close>. When the two queries before the stat succeed, the exception is the
  stat's own.
\<close>

theorem missing_dependency_aborts_node_section:
  assumes "stat_birthtime w (js ''./node_modules/moment'') = Inl e"
  shows "prefix (fst (node_body w))
           [Spawn (js ''node -v''), Spawn (js ''echo $NVM_DIR''),
            Stat (js ''./node_modules/moment'')]
       \<and> isl (snd (node_body w))
       \<and> filter is_print (fst (node_body w)) = []
       \<and> Spawn (js ''npm -v'') \<notin> set (fst (node_body w))
       \<and> Readdir (js ''./node_modules'') \<notin> set (fst (node_body w))
       \<and> (run_process w (js ''node -v'') = Exited 0 v \<and>
          run_process w (js ''echo $NVM_DIR'') = Exited 0 nv \<longrightarrow>
            node_body w =
              ([Spawn (js ''node -v''), Spawn (js ''echo $NVM_DIR''),
                Stat (js ''./node_modules/moment'')], Inl e))"
proof -
  let ?calls = "[Spawn (js ''node -v''), Spawn (js ''echo $NVM_DIR''),
                 Stat (js ''./node_modules/moment'')]"
  have pre: "prefix (fst (node_body w)) ?calls" and raised: "isl (snd (node_body w))"
    using node_body_stat_fails [OF assms] by simp_all
  from pre have sub: "set (fst (node_body w)) \<subseteq> set ?calls"
    by (rule set_mono_prefix)
  have "filter is_print ?calls = []"
    by simp
  with pre have "filter is_print (fst (node_body w)) = []"
    by (metis filter_mono_prefix prefix_Nil)
  moreover have "Spawn (js ''npm -v'') \<notin> set ?calls"
    by (simp add: js_def)
  with sub have "Spawn (js ''npm -v'') \<notin> set (fst (node_body w))"
    by blast
  moreover have "Readdir (js ''./node_modules'') \<notin> set ?calls"
    by simp
  with sub have "Readdir (js ''./node_modules'') \<notin> set (fst (node_body w))"
    by blast
  ultimately show ?thesis
    using pre raised node_body_stat_fails_after_queries [OF assms] by blast
qed

text \<open>The workstation with the \<^verbatim>\<open>moment\<close> package removed.\<close>

theorem missing_dependency_aborts_node_section_witness:
  "stat_birthtime (workstation\<lparr>stat_birthtime := (\<lambda>path. Inl (Rejected (js ''ENOENT'')))\<rparr>)
     (js ''./node_modules/moment'') = Inl (Rejected (js ''ENOENT''))
   \<and> node_body (workstation\<lparr>stat_birthtime := (\<lambda>path. Inl (Rejected (js ''ENOENT'')))\<rparr>) =
       ([Spawn (js ''node -v''), Spawn (js ''echo $NVM_DIR''),
         Stat (js ''./node_modules/moment'')], Inl (Rejected (js ''ENOENT'')))
   \<and> filter is_print
        (fst (node_body
           (workstation\<lparr>stat_birthtime := (\<lambda>path. Inl (Rejected (js ''ENOENT'')))\<rparr>))) = []"
proof -
  let ?m = "workstation\<lparr>stat_birthtime := (\<lambda>path. Inl (Rejected (js ''ENOENT'')))\<rparr>"
  have s: "stat_birthtime ?m (js ''./node_modules/moment'') = Inl (Rejected (js ''ENOENT''))"
    by simp
  have v: "run_process ?m (js ''node -v'') = Exited 0 (js ''v14.0.0\<newline>'')"
    by (simp add: workstation_node)
  have nv: "run_process ?m (js ''echo $NVM_DIR'') = Exited 0 (js ''\<newline>'')"
    by (simp add: workstation_echo)
  from s v nv
    missing_dependency_aborts_node_section
      [OF s, of "js ''v14.0.0\<newline>''" "js ''\<newline>''"]
  show ?thesis
    by blast
qed

text \<open>
  Claim C3, as amended. When every query of the Node section succeeds, the section
  prints the two stale-install warnings exactly when moment counts at least 7 whole
  days from the birth time of \<^verbatim>\<open>./node_modules/moment\<close> to now, and no warning
  otherwise. Moment counts the days between the two readings of the local clock
  (the elapsed time corrected by the change of the UTC offset, rounded toward zero), so
  the condition is that at least \<open>7 * 86400000\<close> milliseconds lie between the two local
  times: an install 6 days ago on the local clock gives no warning, an install exactly
  7 days ago on the local clock gives the warning. Where the UTC offset is the same at
  both instants, this is the elapsed time between the two timestamps.
\<close>

theorem stale_install_warning:
  assumes "run_process w (js ''node -v'') = Exited 0 v"
      and "run_process w (js ''echo $NVM_DIR'') = Exited 0 nv"
      and "stat_birthtime w (js ''./node_modules/moment'') = Inr birth"
      and "run_process w (js ''npm -v'') = Exited 0 npm"
      and "readdir_entries w (js ''./node_modules'') = Inr entries"
  shows "filter is_Warn (fst (node_body w)) =
           (if 7 \<le> moment_diff_days w (now w) birth
            then [Warn [Str (chalk Yellow (arrow #
                    js '' The last node_modules install is over a week old.''))],
                  Warn [Str (chalk Yellow (arrow #
                    js '' Consider reinstalling dependencies: `npm ci`.''))]]
            else [])
       \<and> (7 \<le> moment_diff_days w (now w) birth) =
           (7 * 86400000 \<le>
              (now w + utc_offset w (now w) * 60000) - (birth + utc_offset w birth * 60000))
       \<and> ((now w + utc_offset w (now w) * 60000) - (birth + utc_offset w birth * 60000) =
             6 * 86400000 \<longrightarrow>
           filter is_Warn (fst (node_body w)) = [])
       \<and> ((now w + utc_offset w (now w) * 60000) - (birth + utc_offset w birth * 60000) =
             7 * 86400000 \<longrightarrow>
           length (filter is_Warn (fst (node_body w))) = 2)
       \<and> (utc_offset w (now w) = utc_offset w birth \<longrightarrow>
           (7 \<le> moment_diff_days w (now w) birth) = (7 * 86400000 \<le> now w - birth))"
proof -
  let ?elapsed =
    "(now w + utc_offset w (now w) * 60000) - (birth + utc_offset w birth * 60000)"
  have elapsed: "now w - birth - (utc_offset w birth - utc_offset w (now w)) * 60000 = ?elapsed"
    by (simp add: algebra_simps)
  have days: "(7 \<le> moment_diff_days w (now w) birth) = (7 * 86400000 \<le> ?elapsed)"
    unfolding moment_diff_days_def Let_def elapsed by (rule seven_days)
  have warnings: "filter is_Warn (fst (node_body w)) =
           (if 7 \<le> moment_diff_days w (now w) birth
            then [Warn [Str (chalk Yellow (arrow #
                    js '' The last node_modules install is over a week old.''))],
                  Warn [Str (chalk Yellow (arrow #
                    js '' Consider reinstalling dependencies: `npm ci`.''))]]
            else [])"
    by (simp add: node_body_run [OF assms] version_check_run nvm_check_run install_check_run
          oldInstall_def)
       (simp add: js_def)
  have "?elapsed = 6 * 86400000 \<longrightarrow> filter is_Warn (fst (node_body w)) = []"
    unfolding warnings days by simp
  moreover have "?elapsed = 7 * 86400000 \<longrightarrow> length (filter is_Warn (fst (node_body w))) = 2"
    unfolding warnings days by simp
  moreover have "utc_offset w (now w) = utc_offset w birth \<longrightarrow>
           (7 \<le> moment_diff_days w (now w) birth) = (7 * 86400000 \<le> now w - birth)"
    unfolding days by simp
  ultimately show ?thesis
    using warnings days by blast
qed

text \<open>
  The workstation installed its dependencies exactly seven days ago and is warned; the
  same workstation a day earlier is not.
\<close>

theorem stale_install_warning_witness:
  "run_process workstation (js ''node -v'') = Exited 0 (js ''v14.0.0\<newline>'')
   \<and> run_process workstation (js ''echo $NVM_DIR'') = Exited 0 (js ''\<newline>'')
   \<and> stat_birthtime workstation (js ''./node_modules/moment'') = Inr 1600000000000
   \<and> run_process workstation (js ''npm -v'') = Exited 0 (js ''6.14.6\<newline>'')
   \<and> readdir_entries workstation (js ''./node_modules'') = Inr [js ''chalk'', js ''moment'']
   \<and> now workstation - 1600000000000 = 7 * 86400000
   \<and> length (filter is_Warn (fst (node_body workstation))) = 2
   \<and> now (workstation\<lparr>now := 1600000000000 + 6 * 86400000\<rparr>) - 1600000000000 = 6 * 86400000
   \<and> filter is_Warn (fst (node_body (workstation\<lparr>now := 1600000000000 + 6 * 86400000\<rparr>))) = []"
proof -
  let ?earlier = "workstation\<lparr>now := 1600000000000 + 6 * 86400000\<rparr>"
  have seven: "now workstation - 1600000000000 = 7 * 86400000"
    and offsets: "utc_offset workstation = (\<lambda>t. 120)"
    by (simp_all add: workstation_def)
  have six: "now ?earlier - 1600000000000 = 6 * 86400000"
    by simp
  have "length (filter is_Warn (fst (node_body workstation))) = 2"
    using stale_install_warning
            [OF workstation_node workstation_echo workstation_stat workstation_npm
                workstation_readdir]
          seven offsets
    by simp
  moreover have "filter is_Warn (fst (node_body ?earlier)) = []"
    using stale_install_warning
            [of ?earlier "js ''v14.0.0\<newline>''" "js ''\<newline>''" 1600000000000
                "js ''6.14.6\<newline>''" "[js ''chalk'', js ''moment'']"]
          workstation_node workstation_echo workstation_stat workstation_npm
          workstation_readdir offsets
    by simp
  ultimately show ?thesis
    using workstation_node workstation_echo workstation_stat workstation_npm
      workstation_readdir seven six
    by blast
qed

text \<open>
  The claim as it is written, on the elapsed whole days between the two timestamps,
  fails across the end of summer time: the autumn workstation runs the script exactly
  seven times 24 hours after the install, its local clock has been set back an hour in
  between, moment counts 6 days, and the section returns without a warning.
\<close>

theorem stale_install_warning_counterexample:
  "stat_birthtime autumn_workstation (js ''./node_modules/moment'') = Inr 1603200000000
   \<and> now autumn_workstation - 1603200000000 = 7 * 86400000
   \<and> moment_diff_days autumn_workstation (now autumn_workstation) 1603200000000 = 6
   \<and> snd (node_body autumn_workstation) = Inr ()
   \<and> filter is_Warn (fst (node_body autumn_workstation)) = []"
proof -
  have birth: "stat_birthtime autumn_workstation (js ''./node_modules/moment'') =
                 Inr 1603200000000"
    and elapsed: "now autumn_workstation - 1603200000000 = 7 * 86400000"
    by (simp_all add: autumn_workstation_def)
  have v: "run_process autumn_workstation (js ''node -v'') = Exited 0 (js ''v14.0.0\<newline>'')"
    and nv: "run_process autumn_workstation (js ''echo $NVM_DIR'') = Exited 0 (js ''\<newline>'')"
    and npm: "run_process autumn_workstation (js ''npm -v'') = Exited 0 (js ''6.14.6\<newline>'')"
    and entries: "readdir_entries autumn_workstation (js ''./node_modules'') =
                    Inr [js ''chalk'', js ''moment'']"
    by (simp_all add: autumn_workstation_def workstation_node workstation_echo workstation_npm
          workstation_readdir)
  have days: "moment_diff_days autumn_workstation (now autumn_workstation) 1603200000000 = 6"
    by (simp add: moment_diff_days_def absFloor_def autumn_workstation_def)
  have "node_body autumn_workstation =
          (fst (node_body autumn_workstation), Inr ())"
    by (simp add: node_body_run [OF v nv birth npm entries])
  then have returns: "snd (node_body autumn_workstation) = Inr ()"
    by (metis snd_conv)
  have "filter is_Warn (fst (node_body autumn_workstation)) = []"
    by (simp add: node_body_run [OF v nv birth npm entries] version_check_run nvm_check_run
          install_check_run oldInstall_def days)
  with birth elapsed days returns show ?thesis
    by blast
qed

text \<open>
  Claim C10. \<open>hasNvm\<close> runs \<^verbatim>\<open>echo $NVM_DIR\<close> in a subshell. When that echo exits with
  status 0, as it does whether or not the variable is set, the detection returns a
  boolean and does not raise: true iff the output is non-empty after trimming. When
  the trimmed output is empty and the queries around it succeed, the section prints
  \<^verbatim>\<open>nvm: false\<close> and the two error lines and goes on with the next line; when it is not
  empty, it prints \<^verbatim>\<open>nvm: true\<close> and goes on.
\<close>

theorem nvm_detection:
  assumes "run_process w (js ''echo $NVM_DIR'') = Exited 0 out"
  shows "hasNvm w = ([Spawn (js ''echo $NVM_DIR'')], Inr (trim out \<noteq> []))
       \<and> (run_process w (js ''node -v'') = Exited 0 v \<and>
          stat_birthtime w (js ''./node_modules/moment'') = Inr birth \<and>
          run_process w (js ''npm -v'') = Exited 0 npm \<longrightarrow>
            sublist
              (if trim out = []
               then [Log [label ''nvm:'', Bool False],
                     Error [Str (chalk Red (arrow #
                       js '' Node version manager missing; please install nvm.''))],
                     Error [Str (chalk Red (arrow # js '' https://github.com/nvm-sh/nvm''))],
                     Log [label ''Env:'', env_value w (js ''NODE_ENV'')]]
               else [Log [label ''nvm:'', Bool True],
                     Log [label ''Env:'', env_value w (js ''NODE_ENV'')]])
              (fst (node_body w)))"
proof -
  have detect: "hasNvm w = ([Spawn (js ''echo $NVM_DIR'')], Inr (trim out \<noteq> []))"
    by (simp add: hasNvm_run assms)
  have lines: "sublist
              (if trim out = []
               then [Log [label ''nvm:'', Bool False],
                     Error [Str (chalk Red (arrow #
                       js '' Node version manager missing; please install nvm.''))],
                     Error [Str (chalk Red (arrow # js '' https://github.com/nvm-sh/nvm''))],
                     Log [label ''Env:'', env_value w (js ''NODE_ENV'')]]
               else [Log [label ''nvm:'', Bool True],
                     Log [label ''Env:'', env_value w (js ''NODE_ENV'')]])
              (fst (node_body w))"
    if v: "run_process w (js ''node -v'') = Exited 0 v"
      and s: "stat_birthtime w (js ''./node_modules/moment'') = Inr birth"
      and n: "run_process w (js ''npm -v'') = Exited 0 npm"
  proof -
    let ?lines = "Log [label ''nvm:'', Bool (trim out \<noteq> [])] # fst (nvm_check (trim out \<noteq> []))
                    @ [Log [label ''Env:'', env_value w (js ''NODE_ENV'')]]"
    obtain before rest where "fst (node_body w) = before @ ?lines @ rest"
      using node_body_upto_env [OF v assms s n] by blast
    then have "sublist ?lines (fst (node_body w))"
      by (metis sublist_appendI)
    then show ?thesis
      by (simp add: nvm_check_run js_def split: if_splits)
  qed
  from detect lines show ?thesis
    by blast
qed

text \<open>On the workstation \<^verbatim>\<open>NVM_DIR\<close> is not set: the echo prints an empty line.\<close>

theorem nvm_detection_witness:
  "run_process workstation (js ''echo $NVM_DIR'') = Exited 0 (js ''\<newline>'')
   \<and> run_process workstation (js ''node -v'') = Exited 0 (js ''v14.0.0\<newline>'')
   \<and> stat_birthtime workstation (js ''./node_modules/moment'') = Inr 1600000000000
   \<and> run_process workstation (js ''npm -v'') = Exited 0 (js ''6.14.6\<newline>'')
   \<and> hasNvm workstation = ([Spawn (js ''echo $NVM_DIR'')], Inr False)
   \<and> sublist
        [Log [label ''nvm:'', Bool False],
         Error [Str (chalk Red (arrow #
           js '' Node version manager missing; please install nvm.''))],
         Error [Str (chalk Red (arrow # js '' https://github.com/nvm-sh/nvm''))],
         Log [label ''Env:'', Undefined]]
        (fst (node_body workstation))"
proof -
  have unset: "trim (js ''\<newline>'') = []"
    by (simp add: trim_def trimStart_def trimEnd_def js_def isWhiteSpace_def)
  have env: "env_value workstation (js ''NODE_ENV'') = Undefined"
    by (simp add: env_value_def workstation_def js_def)
  from nvm_detection
         [OF workstation_echo, of "js ''v14.0.0\<newline>''" 1600000000000 "js ''6.14.6\<newline>''"]
       workstation_echo workstation_node workstation_stat workstation_npm
  show ?thesis
    by (simp add: unset env)
qed

section \<open>The Git section\<close>

text \<open>
  Claim C4. When the branch query and the commit count succeed, the Git section prints
  the rebase warning exactly when the count \<open>d\<close> that \<^verbatim>\<open>Number\<close> returns is a number
  greater than 10, and no warning otherwise: 11 prints it, 10 does not (nor does a
  count that is not a number).
\<close>

theorem rebase_warning_iff:
  assumes "run_process w (js ''git branch --show-current'') = Exited 0 b"
      and "run_process w (js ''git log --oneline '' @ trim b @ js '' ^develop | wc -l'') =
             Exited 0 c"
  shows "filter is_Warn (fst (git_body w)) =
           (if js_gt (to_Number w (trim c)) (Finite 10)
            then [Warn [Str (plain (js ''The local branch ('' @ trim b @ js '') is over '' @
                    to_String w (Finite 10) @ js '' commits apart ('' @
                    to_String w (to_Number w (trim c)) @
                    js '') from develop; consider rebasing.''))]]
            else [])
       \<and> js_gt (to_Number w (trim c)) (Finite 10) =
           (\<exists>d. to_Number w (trim c) = Finite d \<and> 10 < d)
       \<and> (to_Number w (trim c) = Finite 11 \<longrightarrow>
            length (filter is_Warn (fst (git_body w))) = 1)
       \<and> (to_Number w (trim c) = Finite 10 \<longrightarrow> filter is_Warn (fst (git_body w)) = [])"
proof -
  have command: "js '' ^'' @ mainBranch @ js '' | wc -l'' = js '' ^develop | wc -l''"
    and tail: "js '') from '' @ mainBranch @ js ''; consider rebasing.'' =
                 js '') from develop; consider rebasing.''"
    by (simp_all add: js_def mainBranch_def)
  have count: "run_process w (js ''git log --oneline '' @ trim b @ js '' ^'' @ mainBranch @
                 js '' | wc -l'') = Exited 0 c"
    using assms(2) by (simp only: command)
  have warnings: "filter is_Warn (fst (git_body w)) =
           (if js_gt (to_Number w (trim c)) (Finite 10)
            then [Warn [Str (plain (js ''The local branch ('' @ trim b @ js '') is over '' @
                    to_String w (Finite 10) @ js '' commits apart ('' @
                    to_String w (to_Number w (trim c)) @
                    js '') from develop; consider rebasing.''))]]
            else [])"
    by (simp only: git_body_warnings [OF assms(1) count] rebase_check_run threshold_def tail
          fst_conv)
  have gt: "js_gt (to_Number w (trim c)) (Finite 10) =
              (\<exists>d. to_Number w (trim c) = Finite d \<and> 10 < d)"
    by (cases "to_Number w (trim c)") simp_all
  have "to_Number w (trim c) = Finite 11 \<longrightarrow> length (filter is_Warn (fst (git_body w))) = 1"
    unfolding warnings by simp
  moreover have "to_Number w (trim c) = Finite 10 \<longrightarrow> filter is_Warn (fst (git_body w)) = []"
    unfolding warnings by simp
  ultimately show ?thesis
    using warnings gt by blast
qed

text \<open>The branch \<^verbatim>\<open>feature\<close>, eleven commits ahead of \<^verbatim>\<open>develop\<close>, and ten commits ahead.\<close>

theorem rebase_warning_iff_witness:
  "run_process (workstation_with_count (js ''      11\<newline>'')) (js ''git branch --show-current'') =
     Exited 0 (js ''  feature\<newline>'')
   \<and> run_process (workstation_with_count (js ''      11\<newline>''))
       (js ''git log --oneline '' @ trim (js ''  feature\<newline>'') @ js '' ^develop | wc -l'') =
     Exited 0 (js ''      11\<newline>'')
   \<and> to_Number (workstation_with_count (js ''      11\<newline>'')) (trim (js ''      11\<newline>'')) =
       Finite 11
   \<and> length (filter is_Warn (fst (git_body (workstation_with_count (js ''      11\<newline>''))))) = 1
   \<and> to_Number (workstation_with_count (js ''10\<newline>'')) (trim (js ''10\<newline>'')) = Finite 10
   \<and> filter is_Warn (fst (git_body (workstation_with_count (js ''10\<newline>'')))) = []"
proof -
  have eleven: "to_Number (workstation_with_count (js ''      11\<newline>''))
                  (trim (js ''      11\<newline>'')) = Finite 11"
    by (simp only: workstation_Number decimal_Number_11)
  have ten: "to_Number (workstation_with_count (js ''10\<newline>'')) (trim (js ''10\<newline>'')) =
               Finite 10"
    by (simp only: workstation_Number decimal_Number_10)
  have "length (filter is_Warn (fst (git_body (workstation_with_count (js ''      11\<newline>''))))) = 1"
    using rebase_warning_iff [OF workstation_branch workstation_count] eleven by blast
  moreover have "filter is_Warn (fst (git_body (workstation_with_count (js ''10\<newline>'')))) = []"
    using rebase_warning_iff [OF workstation_branch workstation_count] ten by blast
  ultimately show ?thesis
    using workstation_branch workstation_count eleven ten by blast
qed

end
